theory Spec2Isabelle
  imports Main "HOL-Library.AList"
begin

section \<open>Strings and JavaScript values\<close>

text \<open>
  A JavaScript string is modelled as a \<^typ>\<open>string\<close>: one \<^typ>\<open>char\<close> per code unit,
  for code units below 256 (ASCII and Latin-1, which covers every literal of the page).
\<close>

definition dquote :: char where
  "dquote = CHR 0x22"

definition toLowerChar :: "char \<Rightarrow> char" where
  \<comment> \<open>\<open>String.prototype.toLowerCase\<close> on one Latin-1 code unit\<close>
  "toLowerChar c =
     (let n = of_char c :: nat
      in if (65 \<le> n \<and> n \<le> 90) \<or> (192 \<le> n \<and> n \<le> 214) \<or> (216 \<le> n \<and> n \<le> 222)
         then char_of (n + 32) else c)"

definition toLowerCase :: "string \<Rightarrow> string" where
  "toLowerCase s = map toLowerChar s"

definition foldCase :: "char \<Rightarrow> char" where
  \<comment> \<open>the case folding of a regular expression with flag \<open>i\<close> (no flag \<open>u\<close>): a code unit
      from 128 on is never identified with an ASCII letter, so only A-Z fold\<close>
  "foldCase c =
     (let n = of_char c :: nat in if 65 \<le> n \<and> n \<le> 90 then char_of (n + 32) else c)"

definition endsWith :: "string \<Rightarrow> string \<Rightarrow> bool" where
  "endsWith s ext = (length ext \<le> length s \<and> drop (length s - length ext) s = ext)"

definition startsWith :: "string \<Rightarrow> string \<Rightarrow> bool" where
  "startsWith s p = (take (length p) s = p)"

fun includes_str :: "string \<Rightarrow> string \<Rightarrow> bool" where
  "includes_str [] sub = (sub = [])"
| "includes_str (c # cs) sub = (startsWith (c # cs) sub \<or> includes_str cs sub)"

declare includes_str.simps [simp del]

definition isWhiteSpace :: "char \<Rightarrow> bool" where
  \<comment> \<open>the white space and line terminators that \<open>trim\<close> strips, below 256:
      TAB, LF, VT, FF, CR, SP, NBSP\<close>
  "isWhiteSpace c = (of_char c \<in> {9, 10, 11, 12, 13, 32, 160 :: nat})"

definition trim :: "string \<Rightarrow> string" where
  "trim s = rev (dropWhile isWhiteSpace (rev (dropWhile isWhiteSpace s)))"

definition digitChar :: "nat \<Rightarrow> char" where
  "digitChar d = ''0123456789'' ! (d mod 10)"

fun showNat :: "nat \<Rightarrow> string" where
  "showNat n = (if n < 10 then [digitChar n] else showNat (n div 10) @ [digitChar (n mod 10)])"

declare showNat.simps [simp del]

fun join :: "string \<Rightarrow> string list \<Rightarrow> string" where
  "join sep [] = []"
| "join sep [x] = x"
| "join sep (x # y # ys) = x @ sep @ join sep (y # ys)"

text \<open>
  A value decoded from JSON and typed \<open>any\<close> in the source. Objects are association lists
  with distinct keys; numbers are integers.
\<close>

datatype jsval =
    JNull
  | JBool bool
  | JNum int
  | JStr string
  | JArr "jsval list"
  | JObj "(string \<times> jsval) list"

fun truthy :: "jsval \<Rightarrow> bool" where
  "truthy JNull = False"
| "truthy (JBool b) = b"
| "truthy (JNum n) = (n \<noteq> 0)"
| "truthy (JStr s) = (s \<noteq> [])"
| "truthy (JArr xs) = True"
| "truthy (JObj kvs) = True"

fun getProp :: "jsval \<Rightarrow> string \<Rightarrow> jsval option" where
  \<comment> \<open>\<open>j?.k\<close>: \<open>None\<close> is \<open>undefined\<close>\<close>
  "getProp (JObj kvs) k = map_of kvs k"
| "getProp j k = None"

section \<open>Data model\<close>

record File =
  name :: string
  bytes :: string

text \<open>
  The fields \<open>file\<close>, \<open>alias\<close> and \<open>sheet\<close> of a slot (the first two names are reserved
  words here). \<open>None\<close> is \<open>undefined\<close> or \<open>null\<close>.
\<close>

record UploadSlot =
  slot_file :: "File option"
  slot_alias :: string
  slot_sheet :: "string option"

datatype SortOrder = Asc | Desc

text \<open>
  The type \<open>number\<close> of the two row counts is the parameter \<open>'n\<close> of the records: the
  floating-point numbers of the engine are not spelled out. What the page does with a count
  is print it inside a template literal; that conversion of a number to a string is the
  parameter \<open>numberToString\<close> of \<open>summarize\<close>.
\<close>

record 'n RunSummary =
  detected_action :: string
  destination :: string
  source :: string
  key :: string
  added_columns :: "string list"
  fill_missing :: "string option"
  rows_total :: 'n
  rows_unmatched :: 'n
  sort_order :: "SortOrder option"

record Artifacts =
  result_url :: string
  unmatched_url :: "string option"
  log_url :: "string option"

record 'n RunResponse =
  session_id :: string
  summary :: "'n RunSummary"
  artifacts :: Artifacts

datatype 'n ChatMessage =
    User string string
  | Assistant "'n RunSummary" Artifacts string

definition ALLOWED_EXTS :: "string list" where
  "ALLOWED_EXTS = [''.csv'', ''.xlsx'']"

section \<open>summarize\<close>

definition orderWord :: "'n RunSummary \<Rightarrow> string" where
  \<comment> \<open>the local \<open>order\<close>\<close>
  "orderWord s = (if sort_order s = Some Desc then ''decrescente'' else ''crescente'')"

definition cols :: "'n RunSummary \<Rightarrow> string" where
  "cols s = (if length (added_columns s) \<noteq> 0 then join '', '' (added_columns s)
             else ''colunas selecionadas'')"

definition fill :: "'n RunSummary \<Rightarrow> string" where
  \<open>fill s = (case fill_missing s of
               None \<Rightarrow> []
             | Some f \<Rightarrow> if f \<noteq> [] then '' Ausentes preenchidos com "'' @ f @ ''".'' else [])\<close>

definition unmatched :: "('n \<Rightarrow> string) \<Rightarrow> 'n RunSummary \<Rightarrow> string" where
  "unmatched numberToString s =
     '' Sem correspond'' @ [CHR 0xEA] @ ''ncia: '' @ numberToString (rows_unmatched s) @ ''.''"

definition summarize :: "('n \<Rightarrow> string) \<Rightarrow> 'n RunSummary \<Rightarrow> string" where
  \<open>summarize numberToString s =
     (if detected_action s = ''SORT'' then
        ''Planilha "'' @ destination s @ ''" ordenada por "'' @ key s @ ''" em ordem '' @ orderWord s
        @ ''. Total de linhas: '' @ numberToString (rows_total s) @ ''.''
      else
        ''Mesclagem conclu'' @ [CHR 0xED] @ ''da: colunas '' @ cols s @ '' copiadas de "'' @ source s
        @ ''" para "'' @ destination s @ ''" usando a chave "'' @ key s
        @ ''". Total de linhas: '' @ numberToString (rows_total s) @ ''.''
        @ unmatched numberToString s @ fill s)\<close>

section \<open>Page state\<close>

text \<open>
  The state of the component \<open>PlanilhasIA\<close>: its \<open>useState\<close> and \<open>useLocalStore\<close> cells.
  \<open>toasts\<close> lists the arguments of every \<open>push\<close> in order (the identifier of a toast and
  its removal after four seconds are left out); \<open>downloads\<close> lists every click on the
  temporary anchor of \<open>downloadBlob\<close> as file name and content. \<open>totalSlots\<close> is an
  integer: the page stores what \<open>parseInt\<close> makes of an option of its select.
\<close>

record 'n state =
  sessionId :: string
  messages :: "'n ChatMessage list"
  slots :: "UploadSlot list"
  totalSlots :: int
  autoDownload :: bool
  prompt :: string
  loading :: bool
  toasts :: "jsval list"
  downloads :: "(string \<times> string) list"

definition push :: "jsval \<Rightarrow> 'n state \<Rightarrow> 'n state" where
  "push text st = st\<lparr>toasts := toasts st @ [text]\<rparr>"

subsection \<open>The slot-count effect\<close>

definition blankSlot :: UploadSlot where
  "blankSlot = \<lparr>slot_file = None, slot_alias = [], slot_sheet = None\<rparr>"

definition clamped :: "int \<Rightarrow> int" where
  \<comment> \<open>\<open>Math.min(5, Math.max(1, totalSlots || 1))\<close>\<close>
  "clamped t = min 5 (max 1 (if t \<noteq> 0 then t else 1))"

definition syncSlots :: "'n state \<Rightarrow> 'n state" where
  "syncSlots st =
     (let c = clamped (totalSlots st); prev = slots st
      in if int (length (slots st)) < c
         then st\<lparr>slots := prev @ replicate (nat (c - int (length prev))) blankSlot\<rparr>
         else if int (length (slots st)) > c
         then st\<lparr>slots := take (nat c) prev\<rparr>
         else st)"

subsection \<open>Picking a file\<close>

definition updateSlot :: "nat \<Rightarrow> (UploadSlot \<Rightarrow> UploadSlot) \<Rightarrow> 'n state \<Rightarrow> 'n state" where
  \<comment> \<open>the patch \<open>{...s, ...patch}\<close> is given as the function that applies it\<close>
  "updateSlot i patch st =
     st\<lparr>slots := map (\<lambda>(idx, s). if idx = i then patch s else s) (enumerate 0 (slots st))\<rparr>"

definition isAllowed :: "File \<Rightarrow> bool" where
  "isAllowed f = list_ex (\<lambda>ext. endsWith (toLowerCase (name f)) ext) ALLOWED_EXTS"

definition lastSegment :: "string \<Rightarrow> string" where
  \<comment> \<open>\<open>name.split(".").pop()\<close>\<close>
  "lastSegment n = rev (takeWhile (\<lambda>c. c \<noteq> CHR ''.'') (rev n))"

definition unsupportedText :: "File \<Rightarrow> string" where
  "unsupportedText f =
     ''Tipo n'' @ [CHR 0xE3] @ ''o suportado (''
     @ (if lastSegment (name f) \<noteq> [] then lastSegment (name f) else ''desconhecido'')
     @ ''). Use CSV ou XLSX.''"

definition handlePick :: "nat \<Rightarrow> File option \<Rightarrow> 'n state \<Rightarrow> 'n state" where
  "handlePick i f st =
     (case f of
        None \<Rightarrow> updateSlot i (\<lambda>s. s\<lparr>slot_file := None\<rparr>) st
      | Some fl \<Rightarrow>
          if \<not> isAllowed fl then push (JStr (unsupportedText fl)) st
          else updateSlot i (\<lambda>s. s\<lparr>slot_file := Some fl\<rparr>) st)"

section \<open>The response and its download\<close>

datatype Exn = Error string | Thrown

text \<open>
  A response as the handler reads it: the status, the three headers it asks for
  (\<open>None\<close> when \<open>headers.get\<close> returns \<open>null\<close>) and the outcome of each body reader.
  \<open>res.json()\<close> is typed \<open>any\<close> where the error body is read (\<open>json_any\<close>) and cast to
  \<open>RunResponse\<close> without a check where the result is read (\<open>json_run\<close>): there the
  model takes a decoded body to have the declared shape, so a body that decodes to \<open>null\<close>
  or to a value without these fields is outside it. \<open>Inl\<close> is the exception of a reader
  that throws.
\<close>

record 'n Response =
  status :: nat
  content_type :: "string option"
  content_disposition :: "string option"
  x_run_summary :: "string option"
  json_any :: "Exn + jsval"
  json_run :: "Exn + 'n RunResponse"
  blob :: "Exn + string"

definition ok :: "'n Response \<Rightarrow> bool" where
  "ok res = (200 \<le> status res \<and> status res \<le> 299)"

definition orEmpty :: "string option \<Rightarrow> string" where
  \<comment> \<open>\<open>h || ""\<close>\<close>
  "orEmpty h = (case h of None \<Rightarrow> [] | Some v \<Rightarrow> v)"

definition matchHere :: "string \<Rightarrow> string option" where
  \<comment> \<open>\<open>/filename="?([^"]+)"?/i\<close> anchored at the head of the text: group 1 of the match\<close>
  "matchHere s =
     (if map foldCase (take 9 s) = ''filename='' then
        (case drop 9 s of
           [] \<Rightarrow> None
         | q # r \<Rightarrow>
             if q = dquote
             then (let cap = takeWhile (\<lambda>c. c \<noteq> dquote) r in if cap \<noteq> [] then Some cap else None)
             else Some (takeWhile (\<lambda>c. c \<noteq> dquote) (q # r)))
      else None)"

fun matchFilename :: "string \<Rightarrow> string option" where
  \<comment> \<open>\<open>cd.match(...)\<close>: the leftmost match\<close>
  "matchFilename [] = None"
| "matchFilename (c # cs) =
     (case matchHere (c # cs) of Some cap \<Rightarrow> Some cap | None \<Rightarrow> matchFilename cs)"

declare matchFilename.simps [simp del]

definition defaultName :: "'n Response \<Rightarrow> string" where
  "defaultName res =
     (if (case content_type res of None \<Rightarrow> False | Some c \<Rightarrow> includes_str c ''csv'')
      then ''planilhanova.csv'' else ''planilhanova.xlsx'')"

definition filenameOf :: "'n Response \<Rightarrow> string" where
  "filenameOf res =
     (case matchFilename (orEmpty (content_disposition res)) of
        Some cap \<Rightarrow> if cap \<noteq> [] then cap else defaultName res
      | None \<Rightarrow> defaultName res)"

definition downloadBlob :: "'n Response \<Rightarrow> string \<Rightarrow> 'n state \<Rightarrow> 'n state" where
  "downloadBlob res b st = st\<lparr>downloads := downloads st @ [(filenameOf res, b)]\<rparr>"

section \<open>handleSubmit\<close>

text \<open>
  A \<open>FormData\<close> is the list of its entries in the order of the \<open>append\<close> calls. The value
  of an entry is a file, a text, or the \<open>JSON.stringify\<close> of a record of strings, kept as
  the record itself: the list of its keys and values in insertion order.
\<close>

datatype FormValue =
    FvFile File
  | FvText string
  | FvJson "(string \<times> string) list"

type_synonym FormData = "(string \<times> FormValue) list"

record Builder =
  form :: FormData
  aliases :: "(string \<times> string) list"
  sheets :: "(string \<times> string) list"

definition fieldName :: "nat \<Rightarrow> string" where
  \<comment> \<open>the template \<open>file${idx + 1}\<close>\<close>
  "fieldName idx = ''file'' @ showNat (idx + 1)"

definition aliasOf :: "nat \<Rightarrow> UploadSlot \<Rightarrow> string" where
  \<comment> \<open>\<open>s.alias?.trim() || `planilha_${idx + 1}`\<close>\<close>
  "aliasOf idx s =
     (if trim (slot_alias s) \<noteq> [] then trim (slot_alias s) else ''planilha_'' @ showNat (idx + 1))"

definition fileValue :: "UploadSlot \<Rightarrow> FormValue" where
  \<comment> \<open>\<open>s.file!\<close> as a value of the form: \<open>used\<close> holds slots with a file only, and a
      missing file would be appended as the text \<open>undefined\<close>\<close>
  "fileValue s = (case slot_file s of Some f \<Rightarrow> FvFile f | None \<Rightarrow> FvText ''undefined'')"

definition addUsed :: "nat \<times> UploadSlot \<Rightarrow> Builder \<Rightarrow> Builder" where
  \<comment> \<open>the body of \<open>used.forEach((s, idx) => ...)\<close>\<close>
  "addUsed p b =
     (let idx = fst p; s = snd p
      in b\<lparr>form := form b @ [(fieldName idx, fileValue s)],
           aliases := AList.update (fieldName idx) (aliasOf idx s) (aliases b),
           sheets := (case slot_sheet s of
                        None \<Rightarrow> sheets b
                      | Some sh \<Rightarrow> if sh \<noteq> [] then AList.update (fieldName idx) sh (sheets b)
                                  else sheets b)\<rparr>)"

definition forEachUsed :: "UploadSlot list \<Rightarrow> Builder" where
  "forEachUsed used = fold addUsed (enumerate 0 used) \<lparr>form = [], aliases = [], sheets = []\<rparr>"

definition buildForm :: "UploadSlot list \<Rightarrow> string \<Rightarrow> string \<Rightarrow> bool \<Rightarrow> FormData" where
  "buildForm used currentPrompt sid auto =
     (let b = forEachUsed used;
          f1 = form b @ [(''aliases'', FvJson (aliases b))];
          f2 = (if length (sheets b) \<noteq> 0 then f1 @ [(''sheets'', FvJson (sheets b))] else f1)
      in f2 @ [(''prompt'', FvText currentPrompt),
               (''session_id'', FvText sid),
               (''download'', FvText (if auto then ''1'' else ''0'')),
               (''out_format'', FvText ''xlsx'')])"

text \<open>
  What the handler takes from outside: the network call, \<open>JSON.parse\<close> on the summary
  header (typed \<open>RunSummary | null\<close> in the source) and the two readings of the clock.
\<close>

record 'n Env =
  fetch :: "FormData \<Rightarrow> Exn + 'n Response"
  JSON_parse :: "string \<Rightarrow> Exn + 'n RunSummary option"
  now_user :: string
  now_reply :: string

definition placeholder :: "'n::zero RunSummary" where
  "placeholder =
     \<lparr>detected_action = ''PROCESS'', destination = ''(arquivo gerado)'', source = [], key = [],
      added_columns = [], fill_missing = None, rows_total = 0, rows_unmatched = 0,
      sort_order = None\<rparr>"

definition noLinks :: Artifacts where
  "noLinks = \<lparr>result_url = [], unmatched_url = Some [], log_url = Some []\<rparr>"

definition appendMessage :: "'n ChatMessage \<Rightarrow> 'n state \<Rightarrow> 'n state" where
  \<comment> \<open>\<open>setMessages((prev) => [...prev, m])\<close>\<close>
  "appendMessage m st = st\<lparr>messages := messages st @ [m]\<rparr>"

definition catch :: "Exn \<Rightarrow> 'n state \<Rightarrow> 'n state" where
  "catch e st =
     (case e of
        Error msg \<Rightarrow> push (JStr msg) st
      | Thrown \<Rightarrow> push (JStr ''Erro desconhecido ao processar.'') st)"

definition errorDetail :: "'n Response \<Rightarrow> jsval" where
  \<comment> \<open>the text pushed for a response that is not \<open>ok\<close>\<close>
  "errorDetail res =
     (let detail = JStr ''Erro ao processar.''
      in case json_any res of
           Inl e \<Rightarrow> detail
         | Inr j \<Rightarrow> (case getProp j ''detail'' of
                       None \<Rightarrow> detail
                     | Some d \<Rightarrow> if truthy d then d else detail))"

definition isSpreadsheet :: "string \<Rightarrow> bool" where
  "isSpreadsheet ctype =
     (includes_str ctype ''application/vnd.openxmlformats-officedocument.spreadsheetml.sheet''
      \<or> includes_str ctype ''text/csv'')"

definition readSummary :: "'n Env \<Rightarrow> 'n Response \<Rightarrow> Exn + 'n RunSummary option" where
  \<comment> \<open>\<open>summaryHeader ? JSON.parse(summaryHeader) : null\<close>\<close>
  "readSummary env res =
     (case x_run_summary res of
        None \<Rightarrow> Inr None
      | Some h \<Rightarrow> if h \<noteq> [] then JSON_parse env h else Inr None)"

definition handleResponse :: "('n::zero) Env \<Rightarrow> 'n Response \<Rightarrow> 'n state \<Rightarrow> 'n state" where
  \<comment> \<open>the \<open>try\<close> block from the end of \<open>fetch\<close> on, with its \<open>catch\<close>\<close>
  "handleResponse env res st =
     (if \<not> ok res then push (errorDetail res) st
      else if isSpreadsheet (orEmpty (content_type res)) then
        (case readSummary env res of
           Inl e \<Rightarrow> catch e st
         | Inr sm \<Rightarrow>
             (case blob res of
                Inl e \<Rightarrow> catch e st
              | Inr b \<Rightarrow>
                  appendMessage
                    (Assistant (case sm of Some s \<Rightarrow> s | None \<Rightarrow> placeholder) noLinks (now_reply env))
                    (downloadBlob res b st)))
      else
        (case json_run res of
           Inl e \<Rightarrow> catch e st
         | Inr data \<Rightarrow>
             appendMessage (Assistant (summary data) (artifacts data) (now_reply env))
               (if session_id data \<noteq> [] \<and> session_id data \<noteq> sessionId st
                then st\<lparr>sessionId := session_id data\<rparr> else st)))"

definition usedSlots :: "'n state \<Rightarrow> UploadSlot list" where
  "usedSlots st = filter (\<lambda>s. slot_file s \<noteq> None) (slots st)"

definition beforeFetch :: "'n Env \<Rightarrow> 'n state \<Rightarrow> 'n state" where
  \<comment> \<open>the state in which \<open>fetch\<close> is called\<close>
  "beforeFetch env st =
     appendMessage (User (prompt st) (now_user env)) (st\<lparr>prompt := [], loading := True\<rparr>)"

definition request :: "'n state \<Rightarrow> FormData" where
  "request st = buildForm (usedSlots st) (prompt st) (sessionId st) (autoDownload st)"

definition handleSubmit :: "('n::zero) Env \<Rightarrow> 'n state \<Rightarrow> 'n state" where
  "handleSubmit env st =
     (if length (usedSlots st) < 1 then push (JStr ''Envie pelo menos 1 arquivo (CSV/XLSX).'') st
      else
        (let st1 = beforeFetch env st;
             st2 = (case fetch env (request st) of
                      Inl e \<Rightarrow> catch e st1
                    | Inr res \<Rightarrow> handleResponse env res st1)
         in st2\<lparr>loading := False\<rparr>))"

section \<open>A sample page state\<close>

text \<open>
  The counts of the sample summaries are small natural numbers, which a template literal
  prints as their decimal numerals: there \<open>showNat\<close> stands for \<open>numberToString\<close>.
\<close>

definition fileA :: File where
  "fileA = \<lparr>name = ''a.xlsx'', bytes = ''A''\<rparr>"

definition fileB :: File where
  "fileB = \<lparr>name = ''b.csv'', bytes = ''B''\<rparr>"

definition exSlots :: "UploadSlot list" where
  "exSlots = [\<lparr>slot_file = Some fileA, slot_alias = ''usuarios_id'', slot_sheet = None\<rparr>,
              \<lparr>slot_file = None, slot_alias = [], slot_sheet = Some ''Plan9''\<rparr>,
              \<lparr>slot_file = Some fileB, slot_alias = ''  '', slot_sheet = Some ''Plan1''\<rparr>]"

definition exState :: "nat state" where
  "exState =
     \<lparr>sessionId = ''s1'', messages = [User ''oi'' ''t0''], slots = exSlots, totalSlots = 3,
      autoDownload = False, prompt = ''merge by name'', loading = False, toasts = [],
      downloads = []\<rparr>"

definition exMerge :: "nat RunSummary" where
  "exMerge =
     \<lparr>detected_action = ''MERGE'', destination = ''usuarios_id'', source = ''usuarios_cpf'',
      key = ''nome'', added_columns = [''cpf'', ''email''], fill_missing = None, rows_total = 10,
      rows_unmatched = 2, sort_order = None\<rparr>"

definition fileT :: File where
  "fileT = \<lparr>name = ''notas.txt'', bytes = ''T''\<rparr>"

definition csvResponse :: "nat Response" where
  "csvResponse =
     \<lparr>status = 200, content_type = Some ''text/csv; charset=utf-8'',
      content_disposition = None, x_run_summary = None, json_any = Inl (Error ''not JSON''),
      json_run = Inl (Error ''not JSON''), blob = Inr ''n,1''\<rparr>"


definition errorResponse :: "jsval \<Rightarrow> nat Response" where
  "errorResponse j =
     \<lparr>status = 422, content_type = Some ''application/json'', content_disposition = None,
      x_run_summary = None, json_any = Inr j, json_run = Inl (Error ''not a result''),
      blob = Inr []\<rparr>"

definition exRun :: "string \<Rightarrow> nat RunResponse" where
  "exRun sid =
     \<lparr>session_id = sid, summary = placeholder,
      artifacts = \<lparr>result_url = ''/files/r.xlsx'', unmatched_url = None, log_url = None\<rparr>\<rparr>"

definition jsonResponse :: "string \<Rightarrow> nat Response" where
  "jsonResponse sid =
     \<lparr>status = 200, content_type = Some ''application/json'', content_disposition = None,
      x_run_summary = None, json_any = Inl (Error ''not read''), json_run = Inr (exRun sid),
      blob = Inr []\<rparr>"

definition exEnv :: "nat Response \<Rightarrow> nat Env" where
  "exEnv res =
     \<lparr>fetch = (\<lambda>f. Inr res), JSON_parse = (\<lambda>h. Inl (Error ''Unexpected token'')),
      now_user = ''t1'', now_reply = ''t2''\<rparr>"

definition offlineEnv :: "nat Env" where
  "offlineEnv =
     \<lparr>fetch = (\<lambda>f. Inl (Error ''Failed to fetch'')),
      JSON_parse = (\<lambda>h. Inl (Error ''Unexpected token'')), now_user = ''t1'', now_reply = ''t2''\<rparr>"

section \<open>Properties\<close>

subsection \<open>Slot count\<close>

lemma clamped_cases: "clamped t = (if t < 1 then 1 else if 5 < t then 5 else t)"
  by (simp add: clamped_def)

lemma syncSlots_slots:
  "slots (syncSlots st)
       = take (nat (clamped (totalSlots st))) (slots st)
         @ replicate (nat (clamped (totalSlots st)) - length (slots st)) blankSlot"
proof -
  let ?c = "clamped (totalSlots st)"
  consider "int (length (slots st)) < ?c" | "int (length (slots st)) > ?c"
    | "int (length (slots st)) = ?c"
    by linarith
  then show ?thesis
  proof cases
    case 1
    then have "nat (?c - int (length (slots st))) = nat ?c - length (slots st)"
      and "length (slots st) \<le> nat ?c"
      by linarith+
    with 1 show ?thesis by (simp add: syncSlots_def Let_def)
  next
    case 2
    then have "nat ?c - length (slots st) = 0" by linarith
    with 2 show ?thesis by (simp add: syncSlots_def Let_def)
  next
    case 3
    then have "nat ?c = length (slots st)" by linarith
    with 3 show ?thesis by (simp add: syncSlots_def Let_def)
  qed
qed

text \<open>
  Claim C2. After the slot-count effect the slot list has as many slots as the requested
  count clamped to the range from 1 to 5: a request below 1 gives 1, a request above 5 gives
  5, any other request gives itself. The new list is the old one cut to that length and
  filled up with slots of blank alias, so growing appends blank slots and shrinking
  truncates.
\<close>

theorem syncSlots_clamped:
  "length (slots (syncSlots st)) = nat (clamped (totalSlots st))
   \<and> clamped t = (if t < 1 then 1 else if 5 < t then 5 else t)
   \<and> slots (syncSlots st)
       = take (nat (clamped (totalSlots st))) (slots st)
         @ replicate (nat (clamped (totalSlots st)) - length (slots st)) blankSlot
   \<and> slot_alias blankSlot = []"
proof -
  have "length (slots (syncSlots st)) = nat (clamped (totalSlots st))"
    unfolding syncSlots_slots by (simp add: min_def)
  then show ?thesis
    using syncSlots_slots [of st] by (simp add: clamped_cases blankSlot_def)
qed

subsection \<open>Summaries\<close>

text \<open>
  Claim C5, as the code has it. \<open>summarize\<close> gives a sentence for every summary and every
  way of printing a number, and each of the three fields that may be missing has a
  fallback. A sort summary without \<open>sort_order\<close> reads "em ordem crescente" (and one with
  \<open>desc\<close> reads "em ordem decrescente"). A merge summary with no added columns names
  "colunas selecionadas" in their place; one column is named as it is, and more columns
  are separated by a comma and a blank. A merge summary without \<open>fill_missing\<close> ends with
  the clause of the unmatched rows, and one with a non-empty fill value ends with the fill
  clause that quotes it. The sentence is never empty.
\<close>

theorem summarize_fallbacks:
  \<open>(detected_action s = ''SORT'' \<longrightarrow> sort_order s = None \<longrightarrow>
      summarize numberToString s = ''Planilha "'' @ destination s @ ''" ordenada por "'' @ key s
        @ ''" em ordem crescente. Total de linhas: '' @ numberToString (rows_total s) @ ''.'')
   \<and> (detected_action s = ''SORT'' \<longrightarrow> sort_order s = Some Desc \<longrightarrow>
      summarize numberToString s = ''Planilha "'' @ destination s @ ''" ordenada por "'' @ key s
        @ ''" em ordem decrescente. Total de linhas: '' @ numberToString (rows_total s) @ ''.'')
   \<and> (detected_action s \<noteq> ''SORT'' \<longrightarrow> added_columns s = [] \<longrightarrow>
      summarize numberToString s
        = ''Mesclagem conclu'' @ [CHR 0xED] @ ''da: colunas colunas selecionadas copiadas de "''
          @ source s @ ''" para "'' @ destination s @ ''" usando a chave "'' @ key s
          @ ''". Total de linhas: '' @ numberToString (rows_total s) @ ''.''
          @ unmatched numberToString s @ fill s)
   \<and> (\<forall>c. added_columns s = [c] \<longrightarrow> cols s = c)
   \<and> (\<forall>c d cs. added_columns s = c # d # cs \<longrightarrow>
         cols s = c @ '', '' @ cols (s\<lparr>added_columns := d # cs\<rparr>))
   \<and> (detected_action s \<noteq> ''SORT'' \<longrightarrow> fill_missing s = None \<longrightarrow>
      summarize numberToString s
        = ''Mesclagem conclu'' @ [CHR 0xED] @ ''da: colunas '' @ cols s @ '' copiadas de "''
          @ source s @ ''" para "'' @ destination s @ ''" usando a chave "'' @ key s
          @ ''". Total de linhas: '' @ numberToString (rows_total s) @ ''. Sem correspond''
          @ [CHR 0xEA] @ ''ncia: '' @ numberToString (rows_unmatched s) @ ''.'')
   \<and> (\<forall>f. detected_action s \<noteq> ''SORT'' \<longrightarrow> fill_missing s = Some f \<longrightarrow> f \<noteq> [] \<longrightarrow>
      summarize numberToString s
        = ''Mesclagem conclu'' @ [CHR 0xED] @ ''da: colunas '' @ cols s @ '' copiadas de "''
          @ source s @ ''" para "'' @ destination s @ ''" usando a chave "'' @ key s
          @ ''". Total de linhas: '' @ numberToString (rows_total s) @ ''. Sem correspond''
          @ [CHR 0xEA] @ ''ncia: '' @ numberToString (rows_unmatched s)
          @ ''. Ausentes preenchidos com "'' @ f @ ''".'')
   \<and> summarize numberToString s \<noteq> []\<close>
proof -
  have c1: "\<forall>c. added_columns s = [c] \<longrightarrow> cols s = c"
    by (simp add: cols_def)
  have c2: "\<forall>c d cs. added_columns s = c # d # cs \<longrightarrow>
         cols s = c @ '', '' @ cols (s\<lparr>added_columns := d # cs\<rparr>)"
    by (simp add: cols_def)
  have rest: \<open>(detected_action s = ''SORT'' \<longrightarrow> sort_order s = None \<longrightarrow>
      summarize numberToString s = ''Planilha "'' @ destination s @ ''" ordenada por "'' @ key s
        @ ''" em ordem crescente. Total de linhas: '' @ numberToString (rows_total s) @ ''.'')
   \<and> (detected_action s = ''SORT'' \<longrightarrow> sort_order s = Some Desc \<longrightarrow>
      summarize numberToString s = ''Planilha "'' @ destination s @ ''" ordenada por "'' @ key s
        @ ''" em ordem decrescente. Total de linhas: '' @ numberToString (rows_total s) @ ''.'')
   \<and> (detected_action s \<noteq> ''SORT'' \<longrightarrow> added_columns s = [] \<longrightarrow>
      summarize numberToString s
        = ''Mesclagem conclu'' @ [CHR 0xED] @ ''da: colunas colunas selecionadas copiadas de "''
          @ source s @ ''" para "'' @ destination s @ ''" usando a chave "'' @ key s
          @ ''". Total de linhas: '' @ numberToString (rows_total s) @ ''.''
          @ unmatched numberToString s @ fill s)
   \<and> (detected_action s \<noteq> ''SORT'' \<longrightarrow> fill_missing s = None \<longrightarrow>
      summarize numberToString s
        = ''Mesclagem conclu'' @ [CHR 0xED] @ ''da: colunas '' @ cols s @ '' copiadas de "''
          @ source s @ ''" para "'' @ destination s @ ''" usando a chave "'' @ key s
          @ ''". Total de linhas: '' @ numberToString (rows_total s) @ ''. Sem correspond''
          @ [CHR 0xEA] @ ''ncia: '' @ numberToString (rows_unmatched s) @ ''.'')
   \<and> (\<forall>f. detected_action s \<noteq> ''SORT'' \<longrightarrow> fill_missing s = Some f \<longrightarrow> f \<noteq> [] \<longrightarrow>
      summarize numberToString s
        = ''Mesclagem conclu'' @ [CHR 0xED] @ ''da: colunas '' @ cols s @ '' copiadas de "''
          @ source s @ ''" para "'' @ destination s @ ''" usando a chave "'' @ key s
          @ ''". Total de linhas: '' @ numberToString (rows_total s) @ ''. Sem correspond''
          @ [CHR 0xEA] @ ''ncia: '' @ numberToString (rows_unmatched s)
          @ ''. Ausentes preenchidos com "'' @ f @ ''".'')
   \<and> summarize numberToString s \<noteq> []\<close>
    by (simp add: summarize_def orderWord_def cols_def fill_def unmatched_def)
  from c1 c2 rest show ?thesis by blast
qed

theorem summarize_fallbacks_witness:
  \<open>summarize showNat (placeholder\<lparr>detected_action := ''SORT'', destination := ''x'',
                                   key := ''nome'', rows_total := 10\<rparr>)
     = ''Planilha "x" ordenada por "nome" em ordem crescente. Total de linhas: 10.''
   \<and> summarize showNat exMerge
     = ''Mesclagem conclu'' @ [CHR 0xED] @ ''da: colunas cpf, email copiadas de "usuarios_cpf" para "usuarios_id" usando a chave "nome". Total de linhas: 10. Sem correspond'' @ [CHR 0xEA] @ ''ncia: 2.''
   \<and> summarize showNat (exMerge\<lparr>added_columns := [], fill_missing := Some ''SEM CPF''\<rparr>)
     = ''Mesclagem conclu'' @ [CHR 0xED] @ ''da: colunas colunas selecionadas copiadas de "usuarios_cpf" para "usuarios_id" usando a chave "nome". Total de linhas: 10. Sem correspond'' @ [CHR 0xEA] @ ''ncia: 2. Ausentes preenchidos com "SEM CPF".''\<close>
proof -
  have n: "showNat 10 = ''10''" "showNat 2 = ''2''"
    by (simp_all add: showNat.simps digitChar_def)
  let ?s1 = "placeholder\<lparr>detected_action := ''SORT'', destination := ''x'', key := ''nome'',
                          rows_total := 10::nat\<rparr>"
  let ?s3 = "exMerge\<lparr>added_columns := [], fill_missing := Some ''SEM CPF''\<rparr>"
  have 1: \<open>summarize showNat ?s1
      = ''Planilha "x" ordenada por "nome" em ordem crescente. Total de linhas: 10.''\<close>
    using summarize_fallbacks [of ?s1 showNat] by (simp add: placeholder_def n)
  have c: "cols exMerge = ''cpf, email''"
    using summarize_fallbacks [of exMerge showNat]
      summarize_fallbacks [of "exMerge\<lparr>added_columns := [''email'']\<rparr>" showNat]
    by (simp add: exMerge_def)
  have 2: \<open>summarize showNat exMerge
     = ''Mesclagem conclu'' @ [CHR 0xED] @ ''da: colunas cpf, email copiadas de "usuarios_cpf" para "usuarios_id" usando a chave "nome". Total de linhas: 10. Sem correspond'' @ [CHR 0xEA] @ ''ncia: 2.''\<close>
    using summarize_fallbacks [of exMerge showNat] c by (simp add: exMerge_def n)
  have 3: \<open>summarize showNat ?s3
     = ''Mesclagem conclu'' @ [CHR 0xED] @ ''da: colunas colunas selecionadas copiadas de "usuarios_cpf" para "usuarios_id" usando a chave "nome". Total de linhas: 10. Sem correspond'' @ [CHR 0xEA] @ ''ncia: 2. Ausentes preenchidos com "SEM CPF".''\<close>
    using summarize_fallbacks [of ?s3 showNat]
    by (simp add: exMerge_def n unmatched_def fill_def)
  from 1 2 3 show ?thesis by blast
qed

text \<open>
  The sentence can have empty gaps. The placeholder summary of the page itself is printed
  with an empty source and an empty key between their quotes, and a column list holding one
  empty name leaves two blanks where the columns should be named.
\<close>

theorem summarize_prints_empty_fields:
  \<open>summarize showNat placeholder
     = ''Mesclagem conclu'' @ [CHR 0xED] @ ''da: colunas colunas selecionadas copiadas de "" para "(arquivo gerado)" usando a chave "". Total de linhas: 0. Sem correspond'' @ [CHR 0xEA] @ ''ncia: 0.''
   \<and> summarize showNat (placeholder\<lparr>added_columns := [[]]\<rparr>)
     = ''Mesclagem conclu'' @ [CHR 0xED] @ ''da: colunas  copiadas de "" para "(arquivo gerado)" usando a chave "". Total de linhas: 0. Sem correspond'' @ [CHR 0xEA] @ ''ncia: 0.''\<close>
  by (simp add: summarize_def placeholder_def cols_def fill_def unmatched_def showNat.simps
      digitChar_def)

subsection \<open>The fields of a submission\<close>

lemma digitChar_inj: "a < 10 \<Longrightarrow> b < 10 \<Longrightarrow> digitChar a = digitChar b \<Longrightarrow> a = b"
proof -
  assume a: "a < 10" and b: "b < 10" and e: "digitChar a = digitChar b"
  have d: "distinct ''0123456789''" by simp
  from a b e have "''0123456789'' ! a = ''0123456789'' ! b" by (simp add: digitChar_def)
  with d a b show "a = b" by (simp add: nth_eq_iff_index_eq)
qed

lemma showNat_nonempty: "showNat n \<noteq> []"
  by (subst showNat.simps) simp

lemma showNat_inj: "showNat n = showNat m \<Longrightarrow> n = m"
proof (induction n arbitrary: m rule: showNat.induct)
  case (1 n)
  show ?case
  proof (cases "n < 10")
    case True
    show ?thesis
    proof (cases "m < 10")
      case mT: True
      from 1(2) True mT have "digitChar n = digitChar m" by (simp add: showNat.simps)
      with True mT show ?thesis by (rule_tac digitChar_inj)
    next
      case mF: False
      from 1(2) True mF have "[digitChar n] = showNat (m div 10) @ [digitChar (m mod 10)]"
        by (simp add: showNat.simps [of n] showNat.simps [of m])
      then have "showNat (m div 10) = []" by simp
      then show ?thesis by (simp add: showNat_nonempty)
    qed
  next
    case False
    show ?thesis
    proof (cases "m < 10")
      case mT: True
      from 1(2) False mT have "showNat (n div 10) @ [digitChar (n mod 10)] = [digitChar m]"
        by (simp add: showNat.simps [of n] showNat.simps [of m])
      then have "showNat (n div 10) = []" by simp
      then show ?thesis by (simp add: showNat_nonempty)
    next
      case mF: False
      from 1(2) False mF
      have "showNat (n div 10) @ [digitChar (n mod 10)] = showNat (m div 10) @ [digitChar (m mod 10)]"
        by (simp add: showNat.simps [of n] showNat.simps [of m])
      then have e1: "showNat (n div 10) = showNat (m div 10)"
        and e2: "digitChar (n mod 10) = digitChar (m mod 10)" by simp_all
      from 1(1) [OF False e1] have d: "n div 10 = m div 10" .
      from e2 have r: "n mod 10 = m mod 10" by (intro digitChar_inj) simp_all
      from d r show ?thesis by (metis div_mult_mod_eq)
    qed
  qed
qed

lemma fieldName_inj: "fieldName i = fieldName j \<Longrightarrow> i = j"
  using showNat_inj [of "i + 1" "j + 1"] by (simp add: fieldName_def)

lemma update_fresh: "k \<notin> fst ` set al \<Longrightarrow> AList.update k v al = al @ [(k, v)]"
  by (induction al) auto


lemma fold_addUsed:
  "fst ` set (aliases b) \<subseteq> fieldName ` {..<n} \<Longrightarrow> fst ` set (sheets b) \<subseteq> fieldName ` {..<n} \<Longrightarrow>
   form (fold addUsed (enumerate n xs) b)
     = form b @ map (\<lambda>(idx, s). (fieldName idx, fileValue s)) (enumerate n xs)
   \<and> aliases (fold addUsed (enumerate n xs) b)
     = aliases b @ map (\<lambda>(idx, s). (fieldName idx, aliasOf idx s)) (enumerate n xs)
   \<and> sheets (fold addUsed (enumerate n xs) b)
     = sheets b @ map (\<lambda>(idx, s). (fieldName idx, orEmpty (slot_sheet s)))
                    (filter (\<lambda>(idx, s). orEmpty (slot_sheet s) \<noteq> []) (enumerate n xs))"
proof (induction xs arbitrary: n b)
  case Nil
  show ?case by simp
next
  case (Cons x xs)
  have fresh: "fieldName n \<notin> fieldName ` {..<n}"
    using fieldName_inj by fastforce
  from Cons.prems fresh have fa: "fieldName n \<notin> fst ` set (aliases b)"
    and fs: "fieldName n \<notin> fst ` set (sheets b)" by blast+
  let ?b = "addUsed (n, x) b"
  have f: "form ?b = form b @ [(fieldName n, fileValue x)]"
    by (simp add: addUsed_def)
  have a: "aliases ?b = aliases b @ [(fieldName n, aliasOf n x)]"
    by (simp add: addUsed_def update_fresh [OF fa])
  have s: "sheets ?b = sheets b @ (if orEmpty (slot_sheet x) \<noteq> []
             then [(fieldName n, orEmpty (slot_sheet x))] else [])"
    by (simp add: addUsed_def update_fresh [OF fs] orEmpty_def split: option.split)
  have ia: "fst ` set (aliases ?b) \<subseteq> fieldName ` {..<Suc n}"
    using Cons.prems(1) by (auto simp add: a lessThan_Suc)
  have iss: "fst ` set (sheets ?b) \<subseteq> fieldName ` {..<Suc n}"
    using Cons.prems(2) by (auto simp add: s lessThan_Suc)
  from Cons.IH [OF ia iss] show ?case
    by (simp add: f a s)
qed

lemma forEachUsed_eq:
  "form (forEachUsed used) = map (\<lambda>(idx, s). (fieldName idx, fileValue s)) (enumerate 0 used)
   \<and> aliases (forEachUsed used)
       = map (\<lambda>(idx, s). (fieldName idx, aliasOf idx s)) (enumerate 0 used)
   \<and> sheets (forEachUsed used)
       = map (\<lambda>(idx, s). (fieldName idx, orEmpty (slot_sheet s)))
           (filter (\<lambda>(idx, s). orEmpty (slot_sheet s) \<noteq> []) (enumerate 0 used))"
  unfolding forEachUsed_def using fold_addUsed [of "\<lparr>form = [], aliases = [], sheets = []\<rparr>" 0 used]
  by simp


lemma map_enumerate_nth:
  "map (\<lambda>(idx, s). g idx s) (enumerate 0 xs) = map (\<lambda>idx. g idx (xs ! idx)) [0..<length xs]"
  by (rule nth_equalityI) (simp_all add: nth_enumerate_eq)

lemma filter_enumerate_nth:
  "map (\<lambda>(idx, s). g idx s) (filter (\<lambda>(idx, s). P s) (enumerate 0 xs))
   = map (\<lambda>idx. g idx (xs ! idx)) (filter (\<lambda>idx. P (xs ! idx)) [0..<length xs])"
proof -
  have "enumerate 0 xs = map (\<lambda>idx. (idx, xs ! idx)) [0..<length xs]"
    by (rule nth_equalityI) (simp_all add: nth_enumerate_eq)
  then show ?thesis by (simp add: filter_map comp_def)
qed

lemma request_eq:
  "request st =
     form (forEachUsed (usedSlots st))
     @ [(''aliases'', FvJson (aliases (forEachUsed (usedSlots st))))]
     @ (if sheets (forEachUsed (usedSlots st)) \<noteq> []
        then [(''sheets'', FvJson (sheets (forEachUsed (usedSlots st))))] else [])
     @ [(''prompt'', FvText (prompt st)), (''session_id'', FvText (sessionId st)),
        (''download'', FvText (if autoDownload st then ''1'' else ''0'')),
        (''out_format'', FvText ''xlsx'')]"
  by (simp add: request_def buildForm_def Let_def)

lemma distinct_fieldNames: "distinct (map fieldName [0..<n])"
  by (simp add: distinct_map inj_on_def) (use fieldName_inj in blast)

lemma showNat_small: "showNat (Suc 0) = ''1''" "showNat (Suc (Suc 0)) = ''2''"
  by (simp_all add: showNat.simps digitChar_def)

lemma ex_used: "usedSlots exState = [exSlots ! 0, exSlots ! 2]"
  by (simp add: usedSlots_def exState_def exSlots_def)


lemma ex_builder: "forEachUsed (usedSlots exState) =
   \<lparr>form = [(''file1'', FvFile fileA), (''file2'', FvFile fileB)],
    aliases = [(''file1'', ''usuarios_id''), (''file2'', ''planilha_2'')],
    sheets = [(''file2'', ''Plan1'')]\<rparr>"
  by (simp add: ex_used forEachUsed_def addUsed_def exSlots_def
      fieldName_def aliasOf_def fileValue_def trim_def isWhiteSpace_def showNat_small enumerate_eq_zip upt_rec)

lemma ex_request: "request exState =
   [(''file1'', FvFile fileA), (''file2'', FvFile fileB),
    (''aliases'', FvJson [(''file1'', ''usuarios_id''), (''file2'', ''planilha_2'')]),
    (''sheets'', FvJson [(''file2'', ''Plan1'')]),
    (''prompt'', FvText ''merge by name''), (''session_id'', FvText ''s1''),
    (''download'', FvText ''0''), (''out_format'', FvText ''xlsx'')]"
  by (simp add: request_eq ex_builder) (simp add: exState_def)

text \<open>
  Claim C3. In a submission with at least one populated slot, the populated slots are sent
  in slot order as the file parts \<open>file1\<close>, ..., \<open>fileN\<close>: the part of index \<open>idx\<close>
  (counted from 0) is named \<open>file\<close> followed by the decimal numeral of \<open>idx + 1\<close>, the
  names are pairwise different, and every part carries the file of its slot. The alias
  record, sent right after the file parts, has exactly these names as keys, in the same
  order. A slot whose alias is blank after trimming gets \<open>planilha_\<close> followed by its
  number among the populated slots, and no alias sent is empty.
\<close>

theorem request_fields_contiguous:
  "usedSlots st \<noteq> [] \<Longrightarrow>
   form (forEachUsed (usedSlots st))
     = map (\<lambda>idx. (fieldName idx, fileValue (usedSlots st ! idx))) [0..<length (usedSlots st)]
   \<and> aliases (forEachUsed (usedSlots st))
     = map (\<lambda>idx. (fieldName idx, aliasOf idx (usedSlots st ! idx))) [0..<length (usedSlots st)]
   \<and> take (length (usedSlots st) + 1) (request st)
     = form (forEachUsed (usedSlots st))
       @ [(''aliases'', FvJson (aliases (forEachUsed (usedSlots st))))]
   \<and> distinct (map fieldName [0..<length (usedSlots st)])
   \<and> (\<forall>idx. fieldName idx = ''file'' @ showNat (idx + 1))
   \<and> (\<forall>s \<in> set (usedSlots st). \<exists>f. slot_file s = Some f \<and> fileValue s = FvFile f)
   \<and> (\<forall>idx s. trim (slot_alias s) = [] \<longrightarrow> aliasOf idx s = ''planilha_'' @ showNat (idx + 1))
   \<and> (\<forall>idx s. aliasOf idx s \<noteq> [])"
proof -
  let ?u = "usedSlots st"
  have 1: "form (forEachUsed ?u) = map (\<lambda>idx. (fieldName idx, fileValue (?u ! idx))) [0..<length ?u]"
    using forEachUsed_eq [of ?u] map_enumerate_nth [of "\<lambda>idx s. (fieldName idx, fileValue s)" ?u]
    by simp
  have 2: "aliases (forEachUsed ?u) = map (\<lambda>idx. (fieldName idx, aliasOf idx (?u ! idx))) [0..<length ?u]"
    using forEachUsed_eq [of ?u] map_enumerate_nth [of "\<lambda>idx s. (fieldName idx, aliasOf idx s)" ?u]
    by simp
  have len: "length (form (forEachUsed ?u)) = length ?u" by (simp add: 1)
  have 3: "take (length ?u + 1) (request st)
     = form (forEachUsed ?u) @ [(''aliases'', FvJson (aliases (forEachUsed ?u)))]"
    by (subst request_eq) (simp add: len)
  have 5: "\<forall>s \<in> set ?u. \<exists>f. slot_file s = Some f \<and> fileValue s = FvFile f"
    by (auto simp add: usedSlots_def fileValue_def)
  have 6: "\<forall>idx s. trim (slot_alias s) = [] \<longrightarrow> aliasOf idx s = ''planilha_'' @ showNat (idx + 1)"
    by (simp add: aliasOf_def)
  have 7: "\<forall>idx s. aliasOf idx s \<noteq> []"
    by (simp add: aliasOf_def)
  from 1 2 3 5 6 7 distinct_fieldNames [of "length ?u"] show ?thesis
    by (simp add: fieldName_def)
qed


theorem request_fields_contiguous_witness:
  "usedSlots exState \<noteq> []
   \<and> form (forEachUsed (usedSlots exState)) = [(''file1'', FvFile fileA), (''file2'', FvFile fileB)]
   \<and> aliases (forEachUsed (usedSlots exState)) = [(''file1'', ''usuarios_id''), (''file2'', ''planilha_2'')]
   \<and> trim (slot_alias (usedSlots exState ! 1)) = []
   \<and> aliasOf 1 (usedSlots exState ! 1) = ''planilha_2''"
proof -
  have u: "usedSlots exState \<noteq> []" by (simp add: ex_used)
  have t: "trim (slot_alias (usedSlots exState ! 1)) = []"
    by (simp add: ex_used exSlots_def trim_def isWhiteSpace_def)
  from request_fields_contiguous [OF u] have "\<forall>idx s. trim (slot_alias s) = [] \<longrightarrow> aliasOf idx s = ''planilha_'' @ showNat (idx + 1)"
    by blast
  with t have "aliasOf 1 (usedSlots exState ! 1) = ''planilha_'' @ showNat (1 + 1)" by blast
  with u t show ?thesis by (simp add: ex_builder showNat_small)
qed

text \<open>
  Claim C4. The sheets record has one entry per populated slot with a non-empty sheet
  selector, under the positional name of the slot, and no other entry: a slot without a
  sheet selector is not a key of the record, and every key belongs to a slot that gave its
  value as selector. When no populated slot has a sheet selector, the submission has no
  field \<open>sheets\<close> at all; when the record is not empty, it is sent under that name.
\<close>

theorem sheets_only_when_given:
  "sheets (forEachUsed (usedSlots st))
     = map (\<lambda>idx. (fieldName idx, orEmpty (slot_sheet (usedSlots st ! idx))))
         (filter (\<lambda>idx. orEmpty (slot_sheet (usedSlots st ! idx)) \<noteq> []) [0..<length (usedSlots st)])
   \<and> (\<forall>idx < length (usedSlots st). slot_sheet (usedSlots st ! idx) = None \<longrightarrow>
         fieldName idx \<notin> fst ` set (sheets (forEachUsed (usedSlots st))))
   \<and> (\<forall>k v. (k, v) \<in> set (sheets (forEachUsed (usedSlots st))) \<longrightarrow>
         (\<exists>idx < length (usedSlots st). k = fieldName idx \<and> v \<noteq> []
            \<and> slot_sheet (usedSlots st ! idx) = Some v))
   \<and> ((\<forall>s \<in> set (usedSlots st). slot_sheet s = None) \<longrightarrow>
         ''sheets'' \<notin> fst ` set (request st))
   \<and> (sheets (forEachUsed (usedSlots st)) \<noteq> [] \<longrightarrow>
         (''sheets'', FvJson (sheets (forEachUsed (usedSlots st)))) \<in> set (request st))"
proof -
  let ?u = "usedSlots st"
  let ?sh = "sheets (forEachUsed ?u)"
  have 1: "?sh = map (\<lambda>idx. (fieldName idx, orEmpty (slot_sheet (?u ! idx))))
         (filter (\<lambda>idx. orEmpty (slot_sheet (?u ! idx)) \<noteq> []) [0..<length ?u])"
    using forEachUsed_eq [of ?u]
      filter_enumerate_nth [of "\<lambda>idx s. (fieldName idx, orEmpty (slot_sheet s))"
                               "\<lambda>s. orEmpty (slot_sheet s) \<noteq> []" ?u]
    by simp
  have 3: "\<forall>k v. (k, v) \<in> set ?sh \<longrightarrow>
         (\<exists>idx < length ?u. k = fieldName idx \<and> v \<noteq> [] \<and> slot_sheet (?u ! idx) = Some v)"
    unfolding 1 by (auto simp add: orEmpty_def split: option.splits)
  have 2: "\<forall>idx < length ?u. slot_sheet (?u ! idx) = None \<longrightarrow> fieldName idx \<notin> fst ` set ?sh"
  proof (intro allI impI notI)
    fix idx assume "idx < length ?u" and n: "slot_sheet (?u ! idx) = None"
      and "fieldName idx \<in> fst ` set ?sh"
    then obtain v where "(fieldName idx, v) \<in> set ?sh" by auto
    with 3 obtain j where "fieldName idx = fieldName j" and "slot_sheet (?u ! j) = Some v"
      by blast
    with n show False using fieldName_inj [of idx j] by simp
  qed
  have 4: "(\<forall>s \<in> set ?u. slot_sheet s = None) \<longrightarrow> ''sheets'' \<notin> fst ` set (request st)"
  proof
    assume a: "\<forall>s \<in> set ?u. slot_sheet s = None"
    then have "?sh = []" unfolding 1 by (simp add: orEmpty_def filter_empty_conv)
    moreover have "''sheets'' \<notin> fst ` set (form (forEachUsed ?u))"
      using forEachUsed_eq [of ?u] by (auto simp add: fieldName_def)
    ultimately show "''sheets'' \<notin> fst ` set (request st)"
      by (subst request_eq) simp
  qed
  have 5: "?sh \<noteq> [] \<longrightarrow> (''sheets'', FvJson ?sh) \<in> set (request st)"
    by (subst request_eq) simp
  from 1 2 3 4 5 show ?thesis by blast
qed


theorem sheets_only_when_given_witness:
  "sheets (forEachUsed (usedSlots exState)) = [(''file2'', ''Plan1'')]
   \<and> slot_sheet (usedSlots exState ! 0) = None
   \<and> fieldName 0 \<notin> fst ` set (sheets (forEachUsed (usedSlots exState)))
   \<and> (''sheets'', FvJson [(''file2'', ''Plan1'')]) \<in> set (request exState)"
proof -
  have n: "slot_sheet (usedSlots exState ! 0) = None" and l: "0 < length (usedSlots exState)"
    by (simp_all add: ex_used exSlots_def)
  have s: "sheets (forEachUsed (usedSlots exState)) \<noteq> []" by (simp add: ex_builder)
  from sheets_only_when_given [of exState] n l
  have "fieldName 0 \<notin> fst ` set (sheets (forEachUsed (usedSlots exState)))" by blast
  moreover from sheets_only_when_given [of exState] s
  have "(''sheets'', FvJson (sheets (forEachUsed (usedSlots exState)))) \<in> set (request exState)"
    by blast
  ultimately show ?thesis using n by (simp add: ex_builder)
qed

subsection \<open>The response handler\<close>





lemma beforeFetch_fields:
  "messages (beforeFetch env st) = messages st @ [User (prompt st) (now_user env)]"
  "sessionId (beforeFetch env st) = sessionId st"
  "toasts (beforeFetch env st) = toasts st"
  "downloads (beforeFetch env st) = downloads st"
  "slots (beforeFetch env st) = slots st"
  by (simp_all add: beforeFetch_def appendMessage_def)

lemma catch_fields:
  "messages (catch e st) = messages st"
  "sessionId (catch e st) = sessionId st"
  "downloads (catch e st) = downloads st"
  by (simp_all add: catch_def push_def split: Exn.split)

lemma handleSubmit_run:
  "usedSlots st \<noteq> [] \<Longrightarrow>
   handleSubmit env st =
     (case fetch env (request st) of
        Inl e \<Rightarrow> catch e (beforeFetch env st)
      | Inr res \<Rightarrow> handleResponse env res (beforeFetch env st))\<lparr>loading := False\<rparr>"
  by (cases "usedSlots st") (simp_all add: handleSubmit_def Let_def)

lemma handleResponse_messages:
  "messages (handleResponse env res st) =
     messages st @
     (if \<not> ok res then []
      else if isSpreadsheet (orEmpty (content_type res)) then
        (case readSummary env res of
           Inl e \<Rightarrow> []
         | Inr sm \<Rightarrow>
             (case blob res of
                Inl e \<Rightarrow> []
              | Inr b \<Rightarrow> [Assistant (case sm of Some s \<Rightarrow> s | None \<Rightarrow> placeholder) noLinks
                            (now_reply env)]))
      else
        (case json_run res of
           Inl e \<Rightarrow> []
         | Inr data \<Rightarrow> [Assistant (summary data) (artifacts data) (now_reply env)]))"
  by (simp add: handleResponse_def catch_fields push_def appendMessage_def downloadBlob_def
      split: sum.split)

lemma ex_used_nonempty: "usedSlots exState \<noteq> []"
  by (simp add: ex_used)

lemma isSpreadsheet_csv: "isSpreadsheet (orEmpty (content_type csvResponse))"
  by (simp add: csvResponse_def orEmpty_def) code_simp


lemma not_isSpreadsheet_json: "\<not> isSpreadsheet ''application/json''"
  by code_simp


lemma matchFilename_xlsx:
  \<open>matchFilename ''attachment; FileName="resultado.xlsx"'' = Some ''resultado.xlsx''\<close>
  by code_simp


lemma errorDetail_cases:
  "(\<forall>j d. json_any res = Inr j \<longrightarrow> getProp j ''detail'' = Some d \<longrightarrow> truthy d \<longrightarrow>
       errorDetail res = d)
   \<and> ((\<forall>j d. json_any res = Inr j \<longrightarrow> getProp j ''detail'' = Some d \<longrightarrow> \<not> truthy d) \<longrightarrow>
       errorDetail res = JStr ''Erro ao processar.'')"
  by (auto simp add: errorDetail_def Let_def split: sum.splits option.splits)

lemma handleResponse_sessionId:
  "ok res \<Longrightarrow> \<not> isSpreadsheet (orEmpty (content_type res)) \<Longrightarrow> json_run res = Inr data \<Longrightarrow>
   sessionId (handleResponse env res st) =
     (if session_id data \<noteq> [] \<and> session_id data \<noteq> sessionId st then session_id data
      else sessionId st)"
  by (simp add: handleResponse_def appendMessage_def)

lemma jsonResponse_facts:
  "fetch (exEnv (jsonResponse sid)) (request st) = Inr (jsonResponse sid)"
  "ok (jsonResponse sid)"
  "\<not> isSpreadsheet (orEmpty (content_type (jsonResponse sid)))"
  "json_run (jsonResponse sid) = Inr (exRun sid)"
  by (simp_all add: exEnv_def jsonResponse_def ok_def orEmpty_def not_isSpreadsheet_json)

lemma exRun_fields:
  "session_id (exRun sid) = sid"
  "summary (exRun sid) = placeholder"
  "artifacts (exRun sid) = \<lparr>result_url = ''/files/r.xlsx'', unmatched_url = None, log_url = None\<rparr>"
  by (simp_all add: exRun_def)

lemma fileT_rejected: "\<not> isAllowed fileT"
  by code_simp

lemma fileT_text: "unsupportedText fileT = ''Tipo n'' @ [CHR 0xE3] @ ''o suportado (txt). Use CSV ou XLSX.''"
  by code_simp
















text \<open>
  Claim C6. After a response with a success status and a spreadsheet or CSV content type
  that carries no \<open>X-Run-Summary\<close> header, the transcript is the old one, the user turn,
  and (when the body can be read) one assistant entry: its summary is the placeholder, whose
  action is \<open>PROCESS\<close>, whose two row counts are 0 and whose added columns are empty, and
  its artifacts have every link empty.
\<close>

theorem placeholder_without_summary_header:
  "usedSlots st \<noteq> [] \<Longrightarrow> fetch (env :: ('n::zero) Env) (request st) = Inr res \<Longrightarrow> ok res \<Longrightarrow>
   isSpreadsheet (orEmpty (content_type res)) \<Longrightarrow> x_run_summary res = None \<Longrightarrow>
   messages (handleSubmit env st) =
     messages st @ [User (prompt st) (now_user env)]
     @ (case blob res of
          Inl e \<Rightarrow> []
        | Inr b \<Rightarrow> [Assistant placeholder noLinks (now_reply env)])
   \<and> detected_action (placeholder :: 'n RunSummary) = ''PROCESS''
   \<and> rows_total (placeholder :: 'n RunSummary) = 0
   \<and> rows_unmatched (placeholder :: 'n RunSummary) = 0
   \<and> added_columns (placeholder :: 'n RunSummary) = []
   \<and> result_url noLinks = [] \<and> unmatched_url noLinks = Some [] \<and> log_url noLinks = Some []"
  by (simp add: handleSubmit_run beforeFetch_fields handleResponse_messages readSummary_def
      placeholder_def noLinks_def split: sum.split)

theorem placeholder_without_summary_header_witness:
  "x_run_summary csvResponse = None
   \<and> messages (handleSubmit (exEnv csvResponse) exState) =
       [User ''oi'' ''t0'', User ''merge by name'' ''t1'', Assistant placeholder noLinks ''t2'']"
proof -
  have f: "fetch (exEnv csvResponse) (request exState) = Inr csvResponse"
    by (simp add: exEnv_def)
  have o: "ok csvResponse" by (simp add: ok_def csvResponse_def)
  have x: "x_run_summary csvResponse = None" by (simp add: csvResponse_def)
  from placeholder_without_summary_header [OF ex_used_nonempty f o isSpreadsheet_csv x] x show ?thesis
    by (simp add: csvResponse_def exEnv_def exState_def)
qed

text \<open>
  Claim C7, as the code has it. A response without a success status raises exactly one
  notification. Its text is the field \<open>detail\<close> of the decoded body when the body decodes
  and that field is truthy (for a text: not empty); it is the generic message
  \<open>Erro ao processar.\<close> in every other case. The response handler appends nothing to the
  transcript, which ends with the user turn; the handler returns a state in every case, and
  the loading flag is false in it.
\<close>

theorem error_response_notified:
  "usedSlots st \<noteq> [] \<Longrightarrow> fetch env (request st) = Inr res \<Longrightarrow> \<not> ok res \<Longrightarrow>
   toasts (handleSubmit env st) = toasts st @ [errorDetail res]
   \<and> (\<forall>j d. json_any res = Inr j \<longrightarrow> getProp j ''detail'' = Some d \<longrightarrow> truthy d \<longrightarrow>
         errorDetail res = d)
   \<and> ((\<forall>j d. json_any res = Inr j \<longrightarrow> getProp j ''detail'' = Some d \<longrightarrow> \<not> truthy d) \<longrightarrow>
         errorDetail res = JStr ''Erro ao processar.'')
   \<and> messages (handleResponse env res (beforeFetch env st)) = messages (beforeFetch env st)
   \<and> messages (handleSubmit env st) = messages st @ [User (prompt st) (now_user env)]
   \<and> loading (handleSubmit env st) = False"
  using errorDetail_cases [of res]
  by (simp add: handleSubmit_run beforeFetch_fields handleResponse_messages)
     (simp add: handleResponse_def push_def beforeFetch_fields)

theorem error_response_notified_witness:
  "\<not> ok (errorResponse (JObj [(''detail'', JStr (''arquivo inv'' @ [CHR 0xE1] @ ''lido''))]))
   \<and> toasts (handleSubmit (exEnv (errorResponse (JObj [(''detail'', JStr (''arquivo inv'' @ [CHR 0xE1] @ ''lido''))]))) exState)
       = [JStr (''arquivo inv'' @ [CHR 0xE1] @ ''lido'')]
   \<and> messages (handleSubmit (exEnv (errorResponse (JObj [(''detail'', JStr (''arquivo inv'' @ [CHR 0xE1] @ ''lido''))]))) exState)
       = [User ''oi'' ''t0'', User ''merge by name'' ''t1'']
   \<and> loading (handleSubmit (exEnv (errorResponse (JObj [(''detail'', JStr (''arquivo inv'' @ [CHR 0xE1] @ ''lido''))]))) exState)
       = False"
proof -
  let ?j = "JObj [(''detail'', JStr (''arquivo inv'' @ [CHR 0xE1] @ ''lido''))]"
  have f: "fetch (exEnv (errorResponse ?j)) (request exState) = Inr (errorResponse ?j)"
    by (simp add: exEnv_def)
  have o: "\<not> ok (errorResponse ?j)" by (simp add: ok_def errorResponse_def)
  have j: "json_any (errorResponse ?j) = Inr ?j" by (simp add: errorResponse_def)
  have d: "getProp ?j ''detail'' = Some (JStr (''arquivo inv'' @ [CHR 0xE1] @ ''lido''))" by simp
  have t: "truthy (JStr (''arquivo inv'' @ [CHR 0xE1] @ ''lido''))" by simp
  from error_response_notified [OF ex_used_nonempty f o] j d t
  have "errorDetail (errorResponse ?j) = JStr (''arquivo inv'' @ [CHR 0xE1] @ ''lido'')"
    by blast
  with error_response_notified [OF ex_used_nonempty f o] o show ?thesis
    by (simp add: exState_def exEnv_def)
qed

text \<open>
  A body that decodes with an empty \<open>detail\<close> is answered with the generic message, not
  with its \<open>detail\<close>.
\<close>

theorem empty_detail_not_shown:
  "\<not> ok (errorResponse (JObj [(''detail'', JStr [])]))
   \<and> json_any (errorResponse (JObj [(''detail'', JStr [])])) = Inr (JObj [(''detail'', JStr [])])
   \<and> getProp (JObj [(''detail'', JStr [])]) ''detail'' = Some (JStr [])
   \<and> toasts (handleSubmit (exEnv (errorResponse (JObj [(''detail'', JStr [])]))) exState)
       = [JStr ''Erro ao processar.'']"
proof -
  let ?j = "JObj [(''detail'', JStr [])]"
  have o: "\<not> ok (errorResponse ?j)" by (simp add: ok_def errorResponse_def)
  have "toasts (handleSubmit (exEnv (errorResponse ?j)) exState)
        = toasts exState @ [errorDetail (errorResponse ?j)]"
    by (simp add: handleSubmit_run [OF ex_used_nonempty] exEnv_def handleResponse_def o push_def
        beforeFetch_fields)
  moreover have "errorDetail (errorResponse ?j) = JStr ''Erro ao processar.''"
    by (simp add: errorDetail_def errorResponse_def Let_def)
  moreover have "toasts exState = []" by (simp add: exState_def)
  ultimately show ?thesis using o by (simp add: errorResponse_def)
qed

subsection \<open>Picking an unsupported file\<close>

text \<open>
  Claim C8, as the code has it. Picking a file whose lower-cased name ends neither in
  \<open>.csv\<close> nor in \<open>.xlsx\<close> raises one notification naming the rejected type and changes
  nothing else: every slot, the picked one included, keeps the file it had, so a slot that
  was empty stays empty.
\<close>

theorem handlePick_rejects_unsupported:
  "\<not> isAllowed f \<Longrightarrow>
   handlePick i (Some f) st = st\<lparr>toasts := toasts st @ [JStr (unsupportedText f)]\<rparr>
   \<and> slots (handlePick i (Some f) st) = slots st
   \<and> toasts (handlePick i (Some f) st) = toasts st @ [JStr (unsupportedText f)]
   \<and> isAllowed f = (endsWith (toLowerCase (name f)) ''.csv''
                     \<or> endsWith (toLowerCase (name f)) ''.xlsx'')"
  by (simp add: handlePick_def push_def isAllowed_def ALLOWED_EXTS_def)

theorem handlePick_rejects_unsupported_witness:
  "\<not> isAllowed fileT
   \<and> slots (handlePick 1 (Some fileT) exState) = slots exState
   \<and> slot_file (slots (handlePick 1 (Some fileT) exState) ! 1) = None
   \<and> toasts (handlePick 1 (Some fileT) exState)
       = [JStr (''Tipo n'' @ [CHR 0xE3] @ ''o suportado (txt). Use CSV ou XLSX.'')]"
  using handlePick_rejects_unsupported [OF fileT_rejected, of 1 exState] fileT_rejected
  by (simp add: fileT_text) (simp add: exState_def exSlots_def)

text \<open>
  The slot is not emptied: a slot that holds a file still holds it after an unsupported
  file was picked for it.
\<close>

theorem rejected_pick_keeps_previous_file:
  "\<not> isAllowed fileT
   \<and> slot_file (slots exState ! 0) = Some fileA
   \<and> slot_file (slots (handlePick 0 (Some fileT) exState) ! 0) = Some fileA"
proof -
  have "handlePick 0 (Some fileT) exState = push (JStr (unsupportedText fileT)) exState"
    by (simp add: handlePick_def fileT_rejected)
  then show ?thesis
    using fileT_rejected by (simp add: push_def exState_def exSlots_def)
qed

subsection \<open>Session and transcript\<close>

text \<open>
  Claim C9, as the code has it. After a JSON response with a success status whose
  \<open>session_id\<close> is not empty and differs from the current session identifier, the
  current identifier is the server's; the transcript is the old one, unchanged in order and
  content, followed by the user turn and the assistant entry.
\<close>

theorem server_session_adopted:
  "usedSlots st \<noteq> [] \<Longrightarrow> fetch env (request st) = Inr res \<Longrightarrow> ok res \<Longrightarrow>
   \<not> isSpreadsheet (orEmpty (content_type res)) \<Longrightarrow> json_run res = Inr data \<Longrightarrow>
   session_id data \<noteq> sessionId st \<Longrightarrow> session_id data \<noteq> [] \<Longrightarrow>
   sessionId (handleSubmit env st) = session_id data
   \<and> messages (handleSubmit env st) =
       messages st @ [User (prompt st) (now_user env),
                      Assistant (summary data) (artifacts data) (now_reply env)]
   \<and> take (length (messages st)) (messages (handleSubmit env st)) = messages st"
  by (simp add: handleSubmit_run beforeFetch_fields handleResponse_messages
      handleResponse_sessionId)

theorem server_session_adopted_witness:
  "sessionId exState = ''s1''
   \<and> session_id (exRun ''s2'') = ''s2''
   \<and> sessionId (handleSubmit (exEnv (jsonResponse ''s2'')) exState) = ''s2''
   \<and> take 1 (messages (handleSubmit (exEnv (jsonResponse ''s2'')) exState)) = [User ''oi'' ''t0'']"
proof -
  have s: "sessionId exState = ''s1''" and m: "messages exState = [User ''oi'' ''t0'']"
    by (simp_all add: exState_def)
  from server_session_adopted [OF ex_used_nonempty jsonResponse_facts, of "''s2''"] s m
  show ?thesis
    by (simp add: exRun_fields)
qed

text \<open>
  An empty \<open>session_id\<close> differs from the current identifier and is not adopted.
\<close>

theorem empty_server_session_ignored:
  "sessionId exState = ''s1''
   \<and> ok (jsonResponse [])
   \<and> \<not> isSpreadsheet (orEmpty (content_type (jsonResponse [])))
   \<and> json_run (jsonResponse []) = Inr (exRun [])
   \<and> session_id (exRun []) = []
   \<and> sessionId (handleSubmit (exEnv (jsonResponse [])) exState) = ''s1''"
proof -
  have s: "sessionId exState = ''s1''" by (simp add: exState_def)
  have "sessionId (handleSubmit (exEnv (jsonResponse [])) exState) = ''s1''"
    by (simp add: handleSubmit_run [OF ex_used_nonempty] jsonResponse_facts
        handleResponse_sessionId [OF jsonResponse_facts(2-4)] beforeFetch_fields s exRun_fields)
  with s show ?thesis by (simp add: jsonResponse_facts exRun_fields)
qed

text \<open>
  Claim C10. A submission with at least one populated slot appends one user turn with the
  captured prompt before \<open>fetch\<close> is called, and the transcript after the submission is
  that transcript followed by at most one assistant entry: by none when the network call
  fails, when the status is not a success, or when a header or body cannot be decoded.
\<close>

theorem user_turn_kept:
  "usedSlots st \<noteq> [] \<Longrightarrow>
   messages (beforeFetch env st) = messages st @ [User (prompt st) (now_user env)]
   \<and> messages (handleSubmit env st) =
       messages (beforeFetch env st) @
       (case fetch env (request st) of
          Inl e \<Rightarrow> []
        | Inr res \<Rightarrow>
            if \<not> ok res then []
            else if isSpreadsheet (orEmpty (content_type res)) then
              (case readSummary env res of
                 Inl e \<Rightarrow> []
               | Inr sm \<Rightarrow>
                   (case blob res of
                      Inl e \<Rightarrow> []
                    | Inr b \<Rightarrow> [Assistant (case sm of Some s \<Rightarrow> s | None \<Rightarrow> placeholder) noLinks
                                  (now_reply env)]))
            else
              (case json_run res of
                 Inl e \<Rightarrow> []
               | Inr data \<Rightarrow> [Assistant (summary data) (artifacts data) (now_reply env)]))"
  by (simp add: handleSubmit_run beforeFetch_fields handleResponse_messages catch_fields
      split: sum.split)

theorem user_turn_kept_witness:
  "usedSlots exState \<noteq> []
   \<and> messages (handleSubmit offlineEnv exState) = [User ''oi'' ''t0'', User ''merge by name'' ''t1'']
   \<and> messages (handleSubmit (exEnv (jsonResponse ''s2'')) exState)
       = [User ''oi'' ''t0'', User ''merge by name'' ''t1'',
          Assistant placeholder
            \<lparr>result_url = ''/files/r.xlsx'', unmatched_url = None, log_url = None\<rparr> ''t2'']"
proof -
  have m: "messages exState = [User ''oi'' ''t0'']" "prompt exState = ''merge by name''"
    by (simp_all add: exState_def)
  from user_turn_kept [OF ex_used_nonempty, of offlineEnv]
  have 1: "messages (handleSubmit offlineEnv exState)
           = [User ''oi'' ''t0'', User ''merge by name'' ''t1'']"
    by (simp add: offlineEnv_def m)
  from user_turn_kept [OF ex_used_nonempty, of "exEnv (jsonResponse ''s2'')"]
  have 2: "messages (handleSubmit (exEnv (jsonResponse ''s2'')) exState)
       = [User ''oi'' ''t0'', User ''merge by name'' ''t1'',
          Assistant placeholder
            \<lparr>result_url = ''/files/r.xlsx'', unmatched_url = None, log_url = None\<rparr> ''t2'']"
    by (simp add: jsonResponse_facts m exRun_fields) (simp add: exEnv_def)
  from 1 2 ex_used_nonempty show ?thesis by simp
qed

end
